theory Spec2Isabelle
  imports Main "HOL-Library.AList"
begin

section \<open>Partition health data of an asset (usePartitionHealthData.tsx)\<close>

subsection \<open>Values\<close>

text \<open>
  \<open>PartitionState\<close> is the string enum imported from \<open>partitions/PartitionStatus\<close>; the
  three members are the ones the component lists in \<open>stateFilters\<close>.
\<close>

datatype PartitionState = MISSING | SUCCESS | SUCCESS_MISSING

text \<open>
  What a call can end with instead of a value.
  \<^item> \<open>TypeError\<close>: the JavaScript runtime error of reading a property of \<open>undefined\<close>.
  \<^item> \<open>Unsupported\<close>: \<open>throw new Error('stateForSingleDimension asked for third dimension')\<close>.
  \<^item> \<open>InvalidArgument\<close>: raised by \<open>mergedStates\<close> on an empty array.
  \<^item> \<open>Unmodelled\<close>: the evaluation left the fragment of JavaScript embedded here (a
    property read from a state string or from a member inherited from \<open>Object.prototype\<close>,
    or \<open>mergedStates\<close> applied to something that is not an array of states). It marks
    the border of the embedding; no theorem below concludes anything from it.
\<close>

datatype error = TypeError | Unsupported | InvalidArgument | Unmodelled

text \<open>
  The JavaScript values that the index and its getters handle: \<open>undefined\<close>, a state, a
  plain object (its own enumerable properties as an association list with distinct keys,
  in insertion order), and a member inherited from \<open>Object.prototype\<close>, known by name.
  JavaScript enumerates integer-like property names before the others; the only consumer
  of an enumeration here is \<open>mergedStates\<close>, which does not depend on the order.
\<close>

datatype jsval =
    JSUndefined
  | JSState PartitionState
  | JSObject "(string \<times> jsval) list"
  | JSBuiltin string

type_synonym AssetKey = "string list"

record PartitionHealthDimension =
  name :: string
  partitionKeys :: "string list"

record PartitionHealthDimensionRange =
  dimension :: PartitionHealthDimension
  selected :: "string list"

text \<open>
  \<open>PartitionHealthData\<close>: the three getters of the source close over \<open>stateByKey\<close> and
  \<open>dimensions\<close>; here the record carries both and the getters take the record.
\<close>

record PartitionHealthData =
  assetKey :: AssetKey
  dimensions :: "PartitionHealthDimension list"
  stateByKey :: jsval

text \<open>The two shapes of \<open>partitionMaterializationCounts\<close>, told apart by \<open>__typename\<close>.\<close>

datatype MaterializationCounts =
    MaterializationCountSingleDimension "int list"
  | MaterializationCountGroupedByDimension "int list list"

text \<open>
  \<open>data.assetNodeOrError\<close>: an asset node with its \<open>partitionKeysByDimension\<close> and its
  (nullable) \<open>partitionMaterializationCounts\<close>, or any other member of the union.
\<close>

datatype assetNodeOrError =
    AssetNode "PartitionHealthDimension list" "MaterializationCounts option"
  | AssetNotFoundError

subsection \<open>Sequencing of calls that may throw\<close>

fun mapE :: "('a \<Rightarrow> error + 'b) \<Rightarrow> 'a list \<Rightarrow> error + 'b list" where
  "mapE f [] = Inr []"
| "mapE f (x # xs) =
     (case f x of
        Inl e \<Rightarrow> Inl e
      | Inr y \<Rightarrow> (case mapE f xs of Inl e \<Rightarrow> Inl e | Inr ys \<Rightarrow> Inr (y # ys)))"

subsection \<open>JavaScript objects\<close>

text \<open>The names every plain object inherits from \<open>Object.prototype\<close>.\<close>

definition objectPrototypeKeys :: "string list" where
  "objectPrototypeKeys =
     [''constructor'', ''__defineGetter__'', ''__defineSetter__'', ''hasOwnProperty'',
      ''__lookupGetter__'', ''__lookupSetter__'', ''isPrototypeOf'',
      ''propertyIsEnumerable'', ''toString'', ''valueOf'', ''__proto__'',
      ''toLocaleString'']"

text \<open>
  \<open>Object.fromEntries\<close>: the entries are defined one after the other; a key that is
  already there keeps its position and takes the later value.
\<close>

definition fromEntries :: "(string \<times> jsval) list \<Rightarrow> (string \<times> jsval) list" where
  "fromEntries es = foldl (\<lambda>obj (k, v). AList.update k v obj) [] es"

text \<open>
  \<open>partitionKeys[idx]\<close> used as a property name: out of range it is \<open>undefined\<close>, which
  as a property name is the string \<open>"undefined"\<close>.
\<close>

definition keyAt :: "string list \<Rightarrow> nat \<Rightarrow> string" where
  "keyAt keys idx = (if idx < length keys then keys ! idx else ''undefined'')"

text \<open>\<open>v[k]\<close>: own property first, then the prototype; reading from \<open>undefined\<close> throws.\<close>

fun getProp :: "jsval \<Rightarrow> string \<Rightarrow> error + jsval" where
  "getProp JSUndefined k = Inl TypeError"
| "getProp (JSObject ps) k =
     (case map_of ps k of
        Some v \<Rightarrow> Inr v
      | None \<Rightarrow> if k \<in> set objectPrototypeKeys then Inr (JSBuiltin k) else Inr JSUndefined)"
| "getProp (JSState s) k = Inl Unmodelled"
| "getProp (JSBuiltin b) k = Inl Unmodelled"

text \<open>\<open>Object.entries(v)\<close> and \<open>Object.values(v)\<close>; both throw on \<open>undefined\<close>.\<close>

fun objectEntries :: "jsval \<Rightarrow> error + (string \<times> jsval) list" where
  "objectEntries JSUndefined = Inl TypeError"
| "objectEntries (JSObject ps) = Inr ps"
| "objectEntries (JSState s) = Inl Unmodelled"
| "objectEntries (JSBuiltin b) = Inl Unmodelled"

definition objectValues :: "jsval \<Rightarrow> error + jsval list" where
  "objectValues v = (case objectEntries v of Inl e \<Rightarrow> Inl e | Inr ps \<Rightarrow> Inr (map snd ps))"

subsection \<open>mergedStates\<close>

text \<open>
  Modelled from the spec: \<open>mergedStates\<close> is imported from \<open>MultipartitioningSupport\<close>,
  which is not among the sources. The spec (4.1 StateMerger): given a non-empty collection
  of states, if every input is \<open>MISSING\<close> the result is \<open>MISSING\<close>; if every input is
  \<open>SUCCESS\<close> the result is \<open>SUCCESS\<close>; any mixture (also one that already contains
  \<open>SUCCESS_MISSING\<close>) collapses to \<open>SUCCESS_MISSING\<close>; an empty collection fails with
  \<open>InvalidArgument\<close>.
\<close>

definition mergedStates :: "PartitionState list \<Rightarrow> error + PartitionState" where
  "mergedStates states =
     (if states = [] then Inl InvalidArgument
      else if list_all (\<lambda>s. s = MISSING) states then Inr MISSING
      else if list_all (\<lambda>s. s = SUCCESS) states then Inr SUCCESS
      else Inr SUCCESS_MISSING)"

fun asState :: "jsval \<Rightarrow> PartitionState option" where
  "asState (JSState s) = Some s"
| "asState v = None"

text \<open>
  The call \<open>mergedStates(vs)\<close> on an array of run-time values: the spec's function where
  every element is a state; what the absent function does on anything else is not known.
\<close>

definition mergedStatesOf :: "jsval list \<Rightarrow> error + jsval" where
  "mergedStatesOf vs =
     (if list_all (\<lambda>v. asState v \<noteq> None) vs
      then (case mergedStates (List.map_filter asState vs) of
              Inl e \<Rightarrow> Inl e
            | Inr s \<Rightarrow> Inr (JSState s))
      else Inl Unmodelled)"

subsection \<open>loadPartitionHealthData\<close>

definition stateOfCount :: "int \<Rightarrow> PartitionState" where
  "stateOfCount count = (if count > 0 then SUCCESS else MISSING)"

text \<open>
  The entries of the single-dimension shape. The callback reads
  \<open>dimensions[0].partitionKeys\<close> once per count, so it throws only when there is a count
  and no dimension.
\<close>

definition singleEntries ::
  "PartitionHealthDimension list \<Rightarrow> int list \<Rightarrow> error + (string \<times> jsval) list" where
  "singleEntries dims counts =
     mapE (\<lambda>(idx, count).
             case dims of
               [] \<Rightarrow> Inl TypeError
             | d0 # _ \<Rightarrow> Inr (keyAt (partitionKeys d0) idx, JSState (stateOfCount count)))
          (enumerate 0 counts)"

text \<open>The inner callback of the grouped shape reads \<open>dimensions[1].partitionKeys\<close>.\<close>

definition innerEntries ::
  "PartitionHealthDimension list \<Rightarrow> int list \<Rightarrow> error + (string \<times> jsval) list" where
  "innerEntries dims dim0 =
     mapE (\<lambda>(idx1, count).
             case dims of
               _ # d1 # _ \<Rightarrow> Inr (keyAt (partitionKeys d1) idx1, JSState (stateOfCount count))
             | _ \<Rightarrow> Inl TypeError)
          (enumerate 0 dim0)"

definition groupedEntries ::
  "PartitionHealthDimension list \<Rightarrow> int list list \<Rightarrow> error + (string \<times> jsval) list" where
  "groupedEntries dims grouped =
     mapE (\<lambda>(idx0, dim0).
             case dims of
               [] \<Rightarrow> Inl TypeError
             | d0 # _ \<Rightarrow>
                 (case innerEntries dims dim0 of
                    Inl e \<Rightarrow> Inl e
                  | Inr es \<Rightarrow> Inr (keyAt (partitionKeys d0) idx0, JSObject (fromEntries es))))
          (enumerate 0 grouped)"

text \<open>
  \<open>loadPartitionHealthData\<close> after the query has answered with \<open>data\<close>: the function
  builds \<open>stateByKey\<close> and returns the record; it checks nothing about the payload.
\<close>

definition loadPartitionHealthData :: "AssetKey \<Rightarrow> assetNodeOrError \<Rightarrow> error + PartitionHealthData" where
  "loadPartitionHealthData loadKey data =
     (let dims = (case data of AssetNode ds _ \<Rightarrow> ds | AssetNotFoundError \<Rightarrow> []);
          counts = (case data of
                      AssetNode _ (Some c) \<Rightarrow> c
                    | _ \<Rightarrow> MaterializationCountSingleDimension [])
      in case (case counts of
                 MaterializationCountSingleDimension cs \<Rightarrow> singleEntries dims cs
               | MaterializationCountGroupedByDimension g \<Rightarrow> groupedEntries dims g) of
           Inl e \<Rightarrow> Inl e
         | Inr es \<Rightarrow>
             Inr \<lparr>assetKey = loadKey,
                  dimensions = map (\<lambda>d. \<lparr>name = name d, partitionKeys = partitionKeys d\<rparr>) dims,
                  stateByKey = JSObject (fromEntries es)\<rparr>)"

subsection \<open>The getters\<close>

text \<open>\<open>dimensionKeys.reduce((counts, dimensionKey) => counts[dimensionKey], stateByKey)\<close>\<close>

fun reduceKeys :: "jsval \<Rightarrow> string list \<Rightarrow> error + jsval" where
  "reduceKeys counts [] = Inr counts"
| "reduceKeys counts (dimensionKey # rest) =
     (case getProp counts dimensionKey of
        Inl e \<Rightarrow> Inl e
      | Inr v \<Rightarrow> reduceKeys v rest)"

definition stateForKey :: "PartitionHealthData \<Rightarrow> string list \<Rightarrow> error + jsval" where
  "stateForKey h dimensionKeys = reduceKeys (stateByKey h) dimensionKeys"

definition stateForPartialKey :: "PartitionHealthData \<Rightarrow> string list \<Rightarrow> error + jsval" where
  "stateForPartialKey h dimensionKeys =
     (if length dimensionKeys = length (dimensions h)
      then stateForKey h dimensionKeys
      else (case getProp (stateByKey h)
                   (case dimensionKeys of [] \<Rightarrow> ''undefined'' | k # _ \<Rightarrow> k) of
              Inl e \<Rightarrow> Inl e
            | Inr v \<Rightarrow>
                (case objectValues v of
                   Inl e \<Rightarrow> Inl e
                 | Inr vs \<Rightarrow> mergedStatesOf vs)))"

text \<open>
  \<open>withinParentDimensions\<close> is optional: \<open>None\<close> is the omitted argument, and an empty
  array is truthy, so it filters every entry out.
\<close>

definition withinParent :: "string list option \<Rightarrow> string \<Rightarrow> bool" where
  "withinParent withinParentDimensions key =
     (case withinParentDimensions of None \<Rightarrow> True | Some ps \<Rightarrow> key \<in> set ps)"

definition stateForSingleDimension ::
  "PartitionHealthData \<Rightarrow> int \<Rightarrow> string \<Rightarrow> string list option \<Rightarrow> error + jsval" where
  "stateForSingleDimension h dimensionIdx dimensionKey withinParentDimensions =
     (if dimensionIdx = 0 then stateForPartialKey h [dimensionKey]
      else if dimensionIdx = 1 then
        (case objectEntries (stateByKey h) of
           Inl e \<Rightarrow> Inl e
         | Inr ents \<Rightarrow>
             (case mapE (\<lambda>(_, val). getProp val dimensionKey)
                        (filter (\<lambda>(key, _). withinParent withinParentDimensions key) ents) of
                Inl e \<Rightarrow> Inl e
              | Inr vs \<Rightarrow> mergedStatesOf vs))
      else Inl Unsupported)"

section \<open>The partition view (AssetPartitions.tsx)\<close>

subsection \<open>Ranges and the focus vector\<close>

text \<open>\<open>xs[0]\<close>, which is \<open>undefined\<close> on an empty array.\<close>

definition headKey :: "string list \<Rightarrow> string option" where
  "headKey xs = (case xs of [] \<Rightarrow> None | x # _ \<Rightarrow> Some x)"

text \<open>
  \<open>isTimeseriesPartition\<close> is imported from \<open>MultipartitioningSupport\<close>, which is not
  among the sources: the functions below take it as the parameter \<open>isTime\<close>, applied to
  a key or to \<open>undefined\<close>.

  \<open>timeRange\<close>: \<open>findIndex\<close> returns the first range whose dimension's first key is a
  time key, and \<open>timeRange\<close> is that range, or \<open>null\<close> when there is none.
\<close>

definition timeRange ::
  "(string option \<Rightarrow> bool) \<Rightarrow> PartitionHealthDimensionRange list
     \<Rightarrow> PartitionHealthDimensionRange option" where
  "timeRange isTime ranges =
     find (\<lambda>r. isTime (headKey (partitionKeys (dimension r)))) ranges"

text \<open>
  Modelled from the spec: a concrete \<open>isTimeseriesPartition\<close> for the examples. The spec
  (4.4) says that a dimension is time-ordered when its first key parses as a structured
  calendar/time token, and gives no format; this instance accepts the keys that start
  with a calendar date written \<open>YYYY-MM-DD\<close>.
\<close>

definition isDigit :: "char \<Rightarrow> bool" where
  "isDigit c = (c \<in> set ''0123456789'')"

fun isDateKey :: "string option \<Rightarrow> bool" where
  "isDateKey (Some (y1 # y2 # y3 # y4 # s1 # m1 # m2 # s2 # d1 # d2 # _)) =
     (isDigit y1 \<and> isDigit y2 \<and> isDigit y3 \<and> isDigit y4 \<and> s1 = CHR ''-'' \<and>
      isDigit m1 \<and> isDigit m2 \<and> s2 = CHR ''-'' \<and> isDigit d1 \<and> isDigit d2)"
| "isDateKey _ = False"

text \<open>\<open>s.split(sep)\<close> for a one-character separator; \<open>cur\<close> is the segment being read.\<close>

fun splitAcc :: "char \<Rightarrow> string \<Rightarrow> string \<Rightarrow> string list" where
  "splitAcc sep cur [] = [cur]"
| "splitAcc sep cur (c # cs) =
     (if c = sep then cur # splitAcc sep [] cs else splitAcc sep (cur @ [c]) cs)"

definition split :: "char \<Rightarrow> string \<Rightarrow> string list" where
  "split sep s = splitAcc sep [] s"

text \<open>\<open>xs.join(sep)\<close>; an \<open>undefined\<close> element is written as the empty string.\<close>

fun joinStrings :: "char \<Rightarrow> string list \<Rightarrow> string" where
  "joinStrings sep [] = []"
| "joinStrings sep [x] = x"
| "joinStrings sep (x # y # ys) = x @ [sep] @ joinStrings sep (y # ys)"

definition join :: "char \<Rightarrow> string option list \<Rightarrow> string" where
  "join sep xs = joinStrings sep (map (\<lambda>x. case x of None \<Rightarrow> [] | Some s \<Rightarrow> s) xs)"

text \<open>
  \<open>focusedDimensionKeys\<close>, from \<open>params.partition\<close>, here \<open>param\<close> (\<open>None\<close>: absent;
  the empty string is falsy as well).
\<close>

definition focusedDimensionKeys ::
  "string option \<Rightarrow> PartitionHealthDimensionRange list \<Rightarrow> string list" where
  "focusedDimensionKeys param ranges =
     (case param of
        None \<Rightarrow> []
      | Some p \<Rightarrow>
          if p = [] then []
          else if length ranges > 1 then filter (\<lambda>s. s \<noteq> []) (split (CHR ''|'') p)
          else [p])"

definition dimensionKeysOrdered ::
  "(string option \<Rightarrow> bool) \<Rightarrow> PartitionHealthDimensionRange \<Rightarrow> string list" where
  "dimensionKeysOrdered isTime r =
     (if isTime (headKey (selected r)) then rev (selected r) else selected r)"

subsection \<open>Rows\<close>

record PartitionRow =
  dimensionKey :: string
  state :: jsval

text \<open>\<open>stateFilters.includes(v)\<close>: only a state can be equal to a member of the array.\<close>

definition includesState :: "PartitionState list \<Rightarrow> jsval \<Rightarrow> bool" where
  "includesState stateFilters v =
     (case asState v of None \<Rightarrow> False | Some s \<Rightarrow> s \<in> set stateFilters)"

text \<open>\<open>ranges[idx - 1]?.selected\<close>\<close>

definition parentSelected ::
  "PartitionHealthDimensionRange list \<Rightarrow> nat \<Rightarrow> string list option" where
  "parentSelected ranges idx =
     (if 1 \<le> idx \<and> idx - 1 < length ranges then Some (selected (ranges ! (idx - 1)))
      else None)"

text \<open>The state of one row: the body of the \<open>map\<close> callback.\<close>

definition rowState ::
  "PartitionHealthData \<Rightarrow> PartitionHealthDimensionRange list \<Rightarrow> string list \<Rightarrow> nat
     \<Rightarrow> string \<Rightarrow> error + jsval" where
  "rowState assetHealth ranges focused idx k =
     (if length focused \<ge> idx
      then stateForPartialKey assetHealth (take idx focused @ [k])
      else stateForSingleDimension assetHealth (int idx) k (parentSelected ranges idx))"

text \<open>
  \<open>dimensionRowsForRange(range, idx)\<close>, with \<open>r\<close> for \<open>range\<close>; \<open>assetHealth\<close> is loaded
  whenever it is called.
  A getter that throws ends the whole call.
\<close>

definition dimensionRowsForRange ::
  "(string option \<Rightarrow> bool) \<Rightarrow> PartitionHealthData \<Rightarrow> PartitionHealthDimensionRange list
     \<Rightarrow> string list \<Rightarrow> PartitionState list \<Rightarrow> PartitionHealthDimensionRange \<Rightarrow> nat
     \<Rightarrow> error + PartitionRow list" where
  "dimensionRowsForRange isTime assetHealth ranges focused stateFilters r idx =
     (if (case timeRange isTime ranges of None \<Rightarrow> False | Some tr \<Rightarrow> selected tr = [])
      then Inr []
      else (case mapE (\<lambda>k. case rowState assetHealth ranges focused idx k of
                             Inl e \<Rightarrow> Inl e
                           | Inr st \<Rightarrow> Inr \<lparr>dimensionKey = k, state = st\<rparr>)
                      (dimensionKeysOrdered isTime r) of
              Inl e \<Rightarrow> Inl e
            | Inr rows \<Rightarrow> Inr (filter (\<lambda>row. includesState stateFilters (state row)) rows)))"

subsection \<open>Focus navigation\<close>

text \<open>
  One turn of the loop of \<open>setFocusedDimensionKey\<close>:
  \<open>focusedDimensionKeys[ii] || dimensionKeysOrdered(ranges[ii])[0]\<close>. The right operand is
  evaluated only when the left one is falsy, and throws when \<open>ranges[ii]\<close> is
  \<open>undefined\<close>.
\<close>

definition focusedOrFirst ::
  "(string option \<Rightarrow> bool) \<Rightarrow> PartitionHealthDimensionRange list \<Rightarrow> string list \<Rightarrow> nat
     \<Rightarrow> error + string option" where
  "focusedOrFirst isTime ranges focused ii =
     (if ii < length focused \<and> focused ! ii \<noteq> [] then Inr (Some (focused ! ii))
      else if ii < length ranges then Inr (headKey (dimensionKeysOrdered isTime (ranges ! ii)))
      else Inl TypeError)"

text \<open>
  \<open>nextFocusedDimensionKeys\<close> as it stands before \<open>join\<close>; the argument of the callback
  is a key or \<open>undefined\<close>, and a falsy one is not pushed.
\<close>

definition nextFocusedDimensionKeys ::
  "(string option \<Rightarrow> bool) \<Rightarrow> PartitionHealthDimensionRange list \<Rightarrow> string list \<Rightarrow> nat
     \<Rightarrow> string option \<Rightarrow> error + string option list" where
  "nextFocusedDimensionKeys isTime ranges focused idx chosen =
     (case mapE (focusedOrFirst isTime ranges focused) [0..<idx] of
        Inl e \<Rightarrow> Inl e
      | Inr ks \<Rightarrow>
          Inr (ks @ (case chosen of
                       None \<Rightarrow> []
                     | Some k \<Rightarrow> if k = [] then [] else [Some k])))"

text \<open>\<open>setFocusedDimensionKey\<close>: the new value of \<open>params.partition\<close>.\<close>

definition setFocusedDimensionKey ::
  "(string option \<Rightarrow> bool) \<Rightarrow> PartitionHealthDimensionRange list \<Rightarrow> string list \<Rightarrow> nat
     \<Rightarrow> string option \<Rightarrow> error + string" where
  "setFocusedDimensionKey isTime ranges focused idx chosen =
     (case nextFocusedDimensionKeys isTime ranges focused idx chosen of
        Inl e \<Rightarrow> Inl e
      | Inr ks \<Rightarrow> Inr (join (CHR ''|'') ks))"

section \<open>The hook usePartitionHealthData\<close>

text \<open>
  One instance of the hook, as a state machine. Its state: the React state \<open>result\<close>; the
  dependencies \<open>[client, missingKeyJSON]\<close> the first \<open>useMemo\<close> was last evaluated with
  (\<open>None\<close> before the first render); and the keys of the fetches that \<open>run()\<close> has
  started and that have not settled. A client is known by its identity. Two asset keys
  have the same JSON text exactly when their paths are equal. \<open>useMemo\<close> evaluates its
  callback on the first render and whenever a dependency differs from the previous
  render's.
\<close>

record hookState =
  result :: "PartitionHealthData list"
  memoDeps :: "(nat \<times> AssetKey option) option"
  outstanding :: "AssetKey list"





text \<open>What the call returns: the loaded entries of the requested keys.\<close>

definition rendered :: "AssetKey list \<Rightarrow> hookState \<Rightarrow> PartitionHealthData list" where
  "rendered assetKeys s = filter (\<lambda>r. assetKey r \<in> set assetKeys) (result s)"






section \<open>Payloads and indexes the properties speak of\<close>

subsection \<open>Well-formed payloads\<close>

text \<open>
  The payloads the spec calls well-formed: the keys of a dimension are distinct, and the
  counts are aligned one to one with the keys (6, External interfaces).
\<close>

definition wellFormedSingle :: "PartitionHealthDimension \<Rightarrow> int list \<Rightarrow> bool" where
  "wellFormedSingle d0 counts =
     (distinct (partitionKeys d0) \<and> length counts = length (partitionKeys d0))"

definition wellFormedGrouped ::
  "PartitionHealthDimension \<Rightarrow> PartitionHealthDimension \<Rightarrow> int list list \<Rightarrow> bool" where
  "wellFormedGrouped d0 d1 grouped =
     (distinct (partitionKeys d0) \<and> distinct (partitionKeys d1) \<and>
      length grouped = length (partitionKeys d0) \<and>
      list_all (\<lambda>row. length row = length (partitionKeys d1)) grouped)"

text \<open>
  The object that \<open>Object.fromEntries\<close> builds from one row of grouped counts when the
  keys of dimension 1 are distinct and the row is no longer than they are.
\<close>

definition innerObject :: "string list \<Rightarrow> int list \<Rightarrow> jsval" where
  "innerObject keys1 row = JSObject (zip keys1 (map (\<lambda>c. JSState (stateOfCount c)) row))"

subsection \<open>Example indexes\<close>

text \<open>The one-dimension payload with keys a, b, c and counts 0, 2, 0, and its index.\<close>

definition abcDimension :: PartitionHealthDimension where
  "abcDimension = \<lparr>name = ''default'', partitionKeys = [''a'', ''b'', ''c'']\<rparr>"

definition abcHealth :: PartitionHealthData where
  "abcHealth =
     \<lparr>assetKey = [''asset''], dimensions = [abcDimension],
      stateByKey = JSObject [(''a'', JSState MISSING), (''b'', JSState SUCCESS), (''c'', JSState MISSING)]\<rparr>"

text \<open>
  A two-dimension asset whose two dimensions both have date keys, with one materialized
  coordinate, and ranges that select the day and nothing of the week dimension.
\<close>

definition dayDimension :: PartitionHealthDimension where
  "dayDimension = \<lparr>name = ''day'', partitionKeys = [''2022-01-01'']\<rparr>"

definition weekDimension :: PartitionHealthDimension where
  "weekDimension = \<lparr>name = ''week'', partitionKeys = [''2023-01-02'']\<rparr>"

definition dayWeekHealth :: PartitionHealthData where
  "dayWeekHealth =
     \<lparr>assetKey = [''asset''], dimensions = [dayDimension, weekDimension],
      stateByKey = JSObject [(''2022-01-01'', JSObject [(''2023-01-02'', JSState SUCCESS)])]\<rparr>"

definition dayWeekRanges :: "PartitionHealthDimensionRange list" where
  "dayWeekRanges =
     [\<lparr>dimension = dayDimension, selected = [''2022-01-01'']\<rparr>,
      \<lparr>dimension = weekDimension, selected = []\<rparr>]"






section \<open>Properties\<close>

subsection \<open>Building the index\<close>

text \<open>The result of \<open>mergedStates\<close> depends on the members of the array only, not on their order.\<close>

lemma mergedStates_set: "set xs = set ys \<Longrightarrow> mergedStates xs = mergedStates ys"
proof -
  assume eq: "set xs = set ys"
  then have "xs = [] \<longleftrightarrow> ys = []"
    by (metis set_empty)
  with eq show ?thesis
    by (simp add: mergedStates_def list_all_iff)
qed

lemma mapE_total: "(\<And>x. x \<in> set xs \<Longrightarrow> f x = Inr (g x)) \<Longrightarrow> mapE f xs = Inr (map g xs)"
  by (induction xs) simp_all

lemma update_fresh: "k \<notin> fst ` set al \<Longrightarrow> AList.update k v al = al @ [(k, v)]"
  by (induction al) auto

lemma foldl_update_distinct:
  "distinct (map fst (acc @ es)) \<Longrightarrow>
     foldl (\<lambda>obj (k, v). AList.update k v obj) acc es = acc @ es"
proof (induction es arbitrary: acc)
  case Nil
  then show ?case by simp
next
  case (Cons e es)
  obtain k v where e: "e = (k, v)" by (cases e)
  from Cons.prems e have fresh: "k \<notin> fst ` set acc" by auto
  from Cons.prems e have "distinct (map fst ((acc @ [(k, v)]) @ es))" by simp
  then have "foldl (\<lambda>obj (k, v). AList.update k v obj) (acc @ [(k, v)]) es = (acc @ [(k, v)]) @ es"
    by (rule Cons.IH)
  with fresh e show ?case by (simp add: update_fresh)
qed

lemma fromEntries_distinct: "distinct (map fst es) \<Longrightarrow> fromEntries es = es"
  using foldl_update_distinct [of "[]" es] by (simp add: fromEntries_def)

lemma entries_zip:
  "length cs \<le> length keys \<Longrightarrow>
     map (\<lambda>(idx, c). (keyAt keys idx, f c)) (enumerate 0 cs) = zip keys (map f cs)"
  by (rule nth_equalityI) (simp_all add: nth_enumerate_eq keyAt_def)

lemma dimension_copy: "map (\<lambda>d. \<lparr>name = name d, partitionKeys = partitionKeys d\<rparr>) ds = ds"
  by (induction ds) simp_all

lemma singleEntries_Cons:
  "singleEntries (d0 # ds) cs =
     Inr (map (\<lambda>(idx, c). (keyAt (partitionKeys d0) idx, JSState (stateOfCount c))) (enumerate 0 cs))"
  unfolding singleEntries_def by (rule mapE_total) auto

lemma innerEntries_Cons:
  "innerEntries (d0 # d1 # ds) cs =
     Inr (map (\<lambda>(idx, c). (keyAt (partitionKeys d1) idx, JSState (stateOfCount c))) (enumerate 0 cs))"
  unfolding innerEntries_def by (rule mapE_total) auto

lemma groupedEntries_Cons:
  "groupedEntries (d0 # d1 # ds) g =
     Inr (map (\<lambda>(idx0, dim0).
                 (keyAt (partitionKeys d0) idx0,
                  JSObject (fromEntries
                    (map (\<lambda>(idx, c). (keyAt (partitionKeys d1) idx, JSState (stateOfCount c)))
                         (enumerate 0 dim0)))))
              (enumerate 0 g))"
  unfolding groupedEntries_def by (rule mapE_total) (auto simp: innerEntries_Cons)

lemma load_single:
  assumes "distinct (partitionKeys d0)" "length cs \<le> length (partitionKeys d0)"
  shows "loadPartitionHealthData loadKey (AssetNode (d0 # ds) (Some (MaterializationCountSingleDimension cs))) =
     Inr \<lparr>assetKey = loadKey, dimensions = d0 # ds,
          stateByKey = JSObject (zip (partitionKeys d0) (map (\<lambda>c. JSState (stateOfCount c)) cs))\<rparr>"
proof -
  have "distinct (map fst (zip (partitionKeys d0) (map (\<lambda>c. JSState (stateOfCount c)) cs)))"
    using assms by (simp add: map_fst_zip_take)
  then show ?thesis
    using assms by (simp add: loadPartitionHealthData_def singleEntries_Cons entries_zip fromEntries_distinct
        dimension_copy)
qed

lemma load_grouped:
  assumes "distinct (partitionKeys d0)" "length g \<le> length (partitionKeys d0)"
    and "distinct (partitionKeys d1)" "list_all (\<lambda>row. length row \<le> length (partitionKeys d1)) g"
  shows "loadPartitionHealthData loadKey (AssetNode (d0 # d1 # ds) (Some (MaterializationCountGroupedByDimension g))) =
     Inr \<lparr>assetKey = loadKey, dimensions = d0 # d1 # ds,
          stateByKey = JSObject (zip (partitionKeys d0) (map (innerObject (partitionKeys d1)) g))\<rparr>"
proof -
  have inner: "JSObject (fromEntries
                    (map (\<lambda>(idx, c). (keyAt (partitionKeys d1) idx, JSState (stateOfCount c)))
                         (enumerate 0 row))) = innerObject (partitionKeys d1) row"
    if "row \<in> set g" for row
  proof -
    from that assms(4) have len: "length row \<le> length (partitionKeys d1)"
      by (simp add: list_all_iff)
    have "distinct (map fst (zip (partitionKeys d1) (map (\<lambda>c. JSState (stateOfCount c)) row)))"
      using assms(3) len by (simp add: map_fst_zip_take)
    then show ?thesis
      using len by (simp add: entries_zip fromEntries_distinct innerObject_def)
  qed
  have "map (\<lambda>(idx0, dim0).
                 (keyAt (partitionKeys d0) idx0,
                  JSObject (fromEntries
                    (map (\<lambda>(idx, c). (keyAt (partitionKeys d1) idx, JSState (stateOfCount c)))
                         (enumerate 0 dim0)))))
              (enumerate 0 g) = zip (partitionKeys d0) (map (innerObject (partitionKeys d1)) g)"
  proof (rule nth_equalityI)
    show "length (map (\<lambda>(idx0, dim0).
                 (keyAt (partitionKeys d0) idx0,
                  JSObject (fromEntries
                    (map (\<lambda>(idx, c). (keyAt (partitionKeys d1) idx, JSState (stateOfCount c)))
                         (enumerate 0 dim0)))))
              (enumerate 0 g)) = length (zip (partitionKeys d0) (map (innerObject (partitionKeys d1)) g))"
      using assms(2) by simp
  next
    fix i
    assume "i < length (map (\<lambda>(idx0, dim0).
                 (keyAt (partitionKeys d0) idx0,
                  JSObject (fromEntries
                    (map (\<lambda>(idx, c). (keyAt (partitionKeys d1) idx, JSState (stateOfCount c)))
                         (enumerate 0 dim0)))))
              (enumerate 0 g))"
    then have i: "i < length g" by simp
    then have "g ! i \<in> set g" by simp
    then show "map (\<lambda>(idx0, dim0).
                 (keyAt (partitionKeys d0) idx0,
                  JSObject (fromEntries
                    (map (\<lambda>(idx, c). (keyAt (partitionKeys d1) idx, JSState (stateOfCount c)))
                         (enumerate 0 dim0)))))
              (enumerate 0 g) ! i = zip (partitionKeys d0) (map (innerObject (partitionKeys d1)) g) ! i"
      using i assms(2) by (simp add: nth_enumerate_eq inner) (simp add: keyAt_def)
  qed
  moreover have "distinct (map fst (zip (partitionKeys d0) (map (innerObject (partitionKeys d1)) g)))"
    using assms(1,2) by (simp add: map_fst_zip_take)
  ultimately show ?thesis
    by (simp add: loadPartitionHealthData_def groupedEntries_Cons fromEntries_distinct dimension_copy)
qed


lemma load_wellFormedSingle:
  "wellFormedSingle d0 cs \<Longrightarrow>
     loadPartitionHealthData loadKey (AssetNode (d0 # ds) (Some (MaterializationCountSingleDimension cs))) =
     Inr \<lparr>assetKey = loadKey, dimensions = d0 # ds,
          stateByKey = JSObject (zip (partitionKeys d0) (map (\<lambda>c. JSState (stateOfCount c)) cs))\<rparr>"
  by (simp add: wellFormedSingle_def load_single)

lemma load_wellFormedGrouped:
  "wellFormedGrouped d0 d1 g \<Longrightarrow>
     loadPartitionHealthData loadKey (AssetNode (d0 # d1 # ds) (Some (MaterializationCountGroupedByDimension g))) =
     Inr \<lparr>assetKey = loadKey, dimensions = d0 # d1 # ds,
          stateByKey = JSObject (zip (partitionKeys d0) (map (innerObject (partitionKeys d1)) g))\<rparr>"
  by (rule load_grouped) (auto simp: wellFormedGrouped_def list_all_iff)

lemma getProp_zip_nth:
  "length ks = length vs \<Longrightarrow> distinct ks \<Longrightarrow> i < length vs \<Longrightarrow>
     getProp (JSObject (zip ks vs)) (ks ! i) = Inr (vs ! i)"
  by (simp add: map_of_zip_nth)

lemma getProp_zip_absent:
  "k \<notin> set ks \<Longrightarrow> k \<notin> set objectPrototypeKeys \<Longrightarrow>
     getProp (JSObject (zip ks vs)) k = Inr JSUndefined"
proof -
  assume k: "k \<notin> set ks" and p: "k \<notin> set objectPrototypeKeys"
  have "map_of (zip ks vs) k = None"
    using k by (auto simp: map_of_eq_None_iff dest: set_zip_leftD)
  with p show ?thesis by simp
qed

lemma getProp_inner_nth:
  "distinct keys1 \<Longrightarrow> length row = length keys1 \<Longrightarrow> j < length keys1 \<Longrightarrow>
     getProp (innerObject keys1 row) (keys1 ! j) = Inr (JSState (stateOfCount (row ! j)))"
  unfolding innerObject_def by (subst getProp_zip_nth) simp_all

lemma stateForKey_single:
  assumes "wellFormedSingle d0 cs" "i < length cs"
    and "loadPartitionHealthData loadKey (AssetNode (d0 # ds) (Some (MaterializationCountSingleDimension cs))) = Inr h"
  shows "stateForKey h [partitionKeys d0 ! i] = Inr (JSState (stateOfCount (cs ! i)))"
proof -
  from assms(1,3) have h: "stateByKey h = JSObject (zip (partitionKeys d0) (map (\<lambda>c. JSState (stateOfCount c)) cs))"
    by (auto simp: load_wellFormedSingle)
  have "getProp (JSObject (zip (partitionKeys d0) (map (\<lambda>c. JSState (stateOfCount c)) cs))) (partitionKeys d0 ! i)
      = Inr (map (\<lambda>c. JSState (stateOfCount c)) cs ! i)"
    using assms(1,2) by (intro getProp_zip_nth) (simp_all add: wellFormedSingle_def)
  with assms(2) h show ?thesis by (simp add: stateForKey_def)
qed

lemma stateForKey_grouped:
  assumes "wellFormedGrouped d0 d1 g" "i < length (partitionKeys d0)" "j < length (partitionKeys d1)"
    and "loadPartitionHealthData loadKey (AssetNode (d0 # d1 # ds) (Some (MaterializationCountGroupedByDimension g))) = Inr h"
  shows "stateForKey h [partitionKeys d0 ! i, partitionKeys d1 ! j] = Inr (JSState (stateOfCount (g ! i ! j)))"
proof -
  from assms(1,4) have h: "stateByKey h = JSObject (zip (partitionKeys d0) (map (innerObject (partitionKeys d1)) g))"
    by (auto simp: load_wellFormedGrouped)
  from assms(1,2) have i: "i < length g" by (simp add: wellFormedGrouped_def)
  then have "g ! i \<in> set g" by simp
  with assms(1) have row: "length (g ! i) = length (partitionKeys d1)"
    by (simp add: wellFormedGrouped_def list_all_iff)
  have "getProp (JSObject (zip (partitionKeys d0) (map (innerObject (partitionKeys d1)) g))) (partitionKeys d0 ! i)
      = Inr (map (innerObject (partitionKeys d1)) g ! i)"
    using assms(1) i by (intro getProp_zip_nth) (simp_all add: wellFormedGrouped_def)
  moreover have "getProp (innerObject (partitionKeys d1) (g ! i)) (partitionKeys d1 ! j) = Inr (JSState (stateOfCount (g ! i ! j)))"
    using assms(1,3) row by (intro getProp_inner_nth) (simp_all add: wellFormedGrouped_def)
  ultimately show ?thesis using h i by (simp add: stateForKey_def)
qed

lemma wellFormed_abc: "wellFormedSingle abcDimension [0, 2, 0]"
  by (simp add: wellFormedSingle_def abcDimension_def)

lemma load_abc:
  "loadPartitionHealthData [''asset''] (AssetNode [abcDimension] (Some (MaterializationCountSingleDimension [0, 2, 0]))) = Inr abcHealth"
  by (simp add: load_wellFormedSingle [OF wellFormed_abc] abcHealth_def)
     (simp add: abcDimension_def stateOfCount_def)

subsection \<open>Stored states\<close>

text \<open>
  C3. For every well-formed payload, of one dimension and of two, the index is built and
  the state it stores for a coordinate is \<open>SUCCESS\<close> exactly when the raw count of the
  coordinate is greater than 0, and \<open>MISSING\<close> otherwise. In particular, for the
  one-dimension payload with keys a, b, c and counts 0, 2, 0, \<open>stateForKey(["a"])\<close> is
  \<open>MISSING\<close> and \<open>stateForKey(["b"])\<close> is \<open>SUCCESS\<close>.
\<close>

theorem stored_state_of_count:
  "(wellFormedSingle d0 cs \<and> i < length cs \<longrightarrow>
      (\<exists>h. loadPartitionHealthData loadKey
              (AssetNode (d0 # ds) (Some (MaterializationCountSingleDimension cs))) = Inr h \<and>
            stateForKey h [partitionKeys d0 ! i] =
              Inr (JSState (if cs ! i > 0 then SUCCESS else MISSING)))) \<and>
   (wellFormedGrouped e0 e1 g \<and> m < length (partitionKeys e0) \<and> n < length (partitionKeys e1) \<longrightarrow>
      (\<exists>h. loadPartitionHealthData loadKey
              (AssetNode (e0 # e1 # es) (Some (MaterializationCountGroupedByDimension g))) = Inr h \<and>
            stateForKey h [partitionKeys e0 ! m, partitionKeys e1 ! n] =
              Inr (JSState (if g ! m ! n > 0 then SUCCESS else MISSING)))) \<and>
   (\<exists>h. loadPartitionHealthData [''asset'']
           (AssetNode [\<lparr>name = ''default'', partitionKeys = [''a'', ''b'', ''c'']\<rparr>]
              (Some (MaterializationCountSingleDimension [0, 2, 0]))) = Inr h \<and>
         stateForKey h [''a''] = Inr (JSState MISSING) \<and>
         stateForKey h [''b''] = Inr (JSState SUCCESS))"
proof (intro conjI impI)
  assume a: "wellFormedSingle d0 cs \<and> i < length cs"
  then obtain h where h: "loadPartitionHealthData loadKey
      (AssetNode (d0 # ds) (Some (MaterializationCountSingleDimension cs))) = Inr h"
    by (auto simp: load_wellFormedSingle)
  with a have "stateForKey h [partitionKeys d0 ! i] = Inr (JSState (stateOfCount (cs ! i)))"
    by (auto intro: stateForKey_single)
  with h show "\<exists>h. loadPartitionHealthData loadKey
              (AssetNode (d0 # ds) (Some (MaterializationCountSingleDimension cs))) = Inr h \<and>
            stateForKey h [partitionKeys d0 ! i] =
              Inr (JSState (if cs ! i > 0 then SUCCESS else MISSING))"
    by (auto simp: stateOfCount_def)
next
  assume a: "wellFormedGrouped e0 e1 g \<and> m < length (partitionKeys e0) \<and> n < length (partitionKeys e1)"
  then obtain h where h: "loadPartitionHealthData loadKey
      (AssetNode (e0 # e1 # es) (Some (MaterializationCountGroupedByDimension g))) = Inr h"
    by (auto simp: load_wellFormedGrouped)
  with a have "stateForKey h [partitionKeys e0 ! m, partitionKeys e1 ! n] = Inr (JSState (stateOfCount (g ! m ! n)))"
    by (auto intro: stateForKey_grouped)
  with h show "\<exists>h. loadPartitionHealthData loadKey
              (AssetNode (e0 # e1 # es) (Some (MaterializationCountGroupedByDimension g))) = Inr h \<and>
            stateForKey h [partitionKeys e0 ! m, partitionKeys e1 ! n] =
              Inr (JSState (if g ! m ! n > 0 then SUCCESS else MISSING))"
    by (auto simp: stateOfCount_def)
next
  have "stateForKey abcHealth [''a''] = Inr (JSState MISSING)"
    and "stateForKey abcHealth [''b''] = Inr (JSState SUCCESS)"
    by (simp_all add: abcHealth_def stateForKey_def)
  with load_abc show "\<exists>h. loadPartitionHealthData [''asset'']
           (AssetNode [\<lparr>name = ''default'', partitionKeys = [''a'', ''b'', ''c'']\<rparr>]
              (Some (MaterializationCountSingleDimension [0, 2, 0]))) = Inr h \<and>
         stateForKey h [''a''] = Inr (JSState MISSING) \<and>
         stateForKey h [''b''] = Inr (JSState SUCCESS)"
    by (auto simp: abcDimension_def)
qed


theorem stored_state_of_count_witness:
  "wellFormedSingle \<lparr>name = ''region'', partitionKeys = [''x'', ''y'']\<rparr> [3, 0] \<and>
   (0::nat) < length [3, 0::int] \<and>
   (\<exists>h. loadPartitionHealthData [''asset'']
           (AssetNode [\<lparr>name = ''region'', partitionKeys = [''x'', ''y'']\<rparr>]
              (Some (MaterializationCountSingleDimension [3, 0]))) = Inr h \<and>
         stateForKey h [''x''] = Inr (JSState SUCCESS)) \<and>
   wellFormedGrouped \<lparr>name = ''p'', partitionKeys = [''a'', ''b'']\<rparr>
     \<lparr>name = ''q'', partitionKeys = [''x'', ''y'']\<rparr> [[1, 0], [0, 0]] \<and>
   (\<exists>h. loadPartitionHealthData [''asset'']
           (AssetNode [\<lparr>name = ''p'', partitionKeys = [''a'', ''b'']\<rparr>,
                       \<lparr>name = ''q'', partitionKeys = [''x'', ''y'']\<rparr>]
              (Some (MaterializationCountGroupedByDimension [[1, 0], [0, 0]]))) = Inr h \<and>
         stateForKey h [''a'', ''y''] = Inr (JSState MISSING))"
proof -
  have s: "wellFormedSingle \<lparr>name = ''region'', partitionKeys = [''x'', ''y'']\<rparr> [3, 0]"
    by (simp add: wellFormedSingle_def)
  have g: "wellFormedGrouped \<lparr>name = ''p'', partitionKeys = [''a'', ''b'']\<rparr>
     \<lparr>name = ''q'', partitionKeys = [''x'', ''y'']\<rparr> [[1, 0], [0, 0]]"
    by (simp add: wellFormedGrouped_def)
  show ?thesis
    using s g
      stored_state_of_count [of "\<lparr>name = ''region'', partitionKeys = [''x'', ''y'']\<rparr>" "[3, 0]" 0
        "[''asset'']" "[]" "\<lparr>name = ''p'', partitionKeys = [''a'', ''b'']\<rparr>"
        "\<lparr>name = ''q'', partitionKeys = [''x'', ''y'']\<rparr>" "[[1, 0], [0, 0]]" 0 1 "[]"]
    by simp
qed

subsection \<open>Keys that are not in the index\<close>

text \<open>
  C1, as amended. \<open>stateForKey\<close> has no check for unknown keys and no error of its own.
  On the index of a well-formed payload, for a key sequence as long as the dimensions
  with a key that is not among the corresponding dimension's \<open>partitionKeys\<close> (and is
  not the name of a member of \<open>Object.prototype\<close>): with one dimension the result is
  \<open>undefined\<close>; with two dimensions an unknown dimension-0 key makes the second property
  read throw a \<open>TypeError\<close>, and an unknown dimension-1 key under a known dimension-0
  key gives \<open>undefined\<close>.
\<close>

theorem stateForKey_absent_key:
  "(wellFormedSingle d0 cs \<and> k \<notin> set (partitionKeys d0) \<and> k \<notin> set objectPrototypeKeys \<longrightarrow>
      (\<exists>h. loadPartitionHealthData loadKey
              (AssetNode (d0 # ds) (Some (MaterializationCountSingleDimension cs))) = Inr h \<and>
            stateForKey h [k] = Inr JSUndefined)) \<and>
   (wellFormedGrouped e0 e1 g \<and> k0 \<notin> set (partitionKeys e0) \<and> k0 \<notin> set objectPrototypeKeys \<longrightarrow>
      (\<exists>h. loadPartitionHealthData loadKey
              (AssetNode (e0 # e1 # es) (Some (MaterializationCountGroupedByDimension g))) = Inr h \<and>
            stateForKey h [k0, k1] = Inl TypeError)) \<and>
   (wellFormedGrouped e0 e1 g \<and> m < length (partitionKeys e0) \<and>
    k1 \<notin> set (partitionKeys e1) \<and> k1 \<notin> set objectPrototypeKeys \<longrightarrow>
      (\<exists>h. loadPartitionHealthData loadKey
              (AssetNode (e0 # e1 # es) (Some (MaterializationCountGroupedByDimension g))) = Inr h \<and>
            stateForKey h [partitionKeys e0 ! m, k1] = Inr JSUndefined))"
proof (intro conjI impI)
  assume a: "wellFormedSingle d0 cs \<and> k \<notin> set (partitionKeys d0) \<and> k \<notin> set objectPrototypeKeys"
  then have "getProp (JSObject (zip (partitionKeys d0) (map (\<lambda>c. JSState (stateOfCount c)) cs))) k
      = Inr JSUndefined"
    by (intro getProp_zip_absent) simp_all
  with a show "\<exists>h. loadPartitionHealthData loadKey
              (AssetNode (d0 # ds) (Some (MaterializationCountSingleDimension cs))) = Inr h \<and>
            stateForKey h [k] = Inr JSUndefined"
    by (simp add: load_wellFormedSingle stateForKey_def)
next
  assume a: "wellFormedGrouped e0 e1 g \<and> k0 \<notin> set (partitionKeys e0) \<and> k0 \<notin> set objectPrototypeKeys"
  then have "getProp (JSObject (zip (partitionKeys e0) (map (innerObject (partitionKeys e1)) g))) k0
      = Inr JSUndefined"
    by (intro getProp_zip_absent) simp_all
  with a show "\<exists>h. loadPartitionHealthData loadKey
              (AssetNode (e0 # e1 # es) (Some (MaterializationCountGroupedByDimension g))) = Inr h \<and>
            stateForKey h [k0, k1] = Inl TypeError"
    by (simp add: load_wellFormedGrouped stateForKey_def)
next
  assume a: "wellFormedGrouped e0 e1 g \<and> m < length (partitionKeys e0) \<and>
    k1 \<notin> set (partitionKeys e1) \<and> k1 \<notin> set objectPrototypeKeys"
  then have m: "m < length g" by (simp add: wellFormedGrouped_def)
  have "getProp (JSObject (zip (partitionKeys e0) (map (innerObject (partitionKeys e1)) g))) (partitionKeys e0 ! m)
      = Inr (map (innerObject (partitionKeys e1)) g ! m)"
    using a m by (intro getProp_zip_nth) (simp_all add: wellFormedGrouped_def)
  moreover have "getProp (innerObject (partitionKeys e1) (g ! m)) k1 = Inr JSUndefined"
    unfolding innerObject_def using a by (intro getProp_zip_absent) simp_all
  ultimately show "\<exists>h. loadPartitionHealthData loadKey
              (AssetNode (e0 # e1 # es) (Some (MaterializationCountGroupedByDimension g))) = Inr h \<and>
            stateForKey h [partitionKeys e0 ! m, k1] = Inr JSUndefined"
    using a m by (simp add: load_wellFormedGrouped stateForKey_def)
qed

theorem stateForKey_absent_key_witness:
  "wellFormedSingle \<lparr>name = ''region'', partitionKeys = [''x'', ''y'']\<rparr> [3, 0] \<and>
   ''z'' \<notin> set [''x'', ''y''] \<and> ''z'' \<notin> set objectPrototypeKeys \<and>
   (\<exists>h. loadPartitionHealthData [''asset'']
           (AssetNode [\<lparr>name = ''region'', partitionKeys = [''x'', ''y'']\<rparr>]
              (Some (MaterializationCountSingleDimension [3, 0]))) = Inr h \<and>
         stateForKey h [''z''] = Inr JSUndefined) \<and>
   wellFormedGrouped \<lparr>name = ''p'', partitionKeys = [''a'', ''b'']\<rparr>
     \<lparr>name = ''q'', partitionKeys = [''x'', ''y'']\<rparr> [[1, 0], [0, 0]] \<and>
   ''z'' \<notin> set [''a'', ''b''] \<and>
   (\<exists>h. loadPartitionHealthData [''asset'']
           (AssetNode [\<lparr>name = ''p'', partitionKeys = [''a'', ''b'']\<rparr>,
                       \<lparr>name = ''q'', partitionKeys = [''x'', ''y'']\<rparr>]
              (Some (MaterializationCountGroupedByDimension [[1, 0], [0, 0]]))) = Inr h \<and>
         stateForKey h [''z'', ''z''] = Inl TypeError) \<and>
   (\<exists>h. loadPartitionHealthData [''asset'']
           (AssetNode [\<lparr>name = ''p'', partitionKeys = [''a'', ''b'']\<rparr>,
                       \<lparr>name = ''q'', partitionKeys = [''x'', ''y'']\<rparr>]
              (Some (MaterializationCountGroupedByDimension [[1, 0], [0, 0]]))) = Inr h \<and>
         stateForKey h [''b'', ''z''] = Inr JSUndefined)"
proof -
  have s: "wellFormedSingle \<lparr>name = ''region'', partitionKeys = [''x'', ''y'']\<rparr> [3, 0]"
    by (simp add: wellFormedSingle_def)
  have g: "wellFormedGrouped \<lparr>name = ''p'', partitionKeys = [''a'', ''b'']\<rparr>
     \<lparr>name = ''q'', partitionKeys = [''x'', ''y'']\<rparr> [[1, 0], [0, 0]]"
    by (simp add: wellFormedGrouped_def)
  have z: "''z'' \<notin> set objectPrototypeKeys"
    by (simp add: objectPrototypeKeys_def)
  show ?thesis
    using s g z
      stateForKey_absent_key [of "\<lparr>name = ''region'', partitionKeys = [''x'', ''y'']\<rparr>" "[3, 0]" "''z''"
        "[''asset'']" "[]" "\<lparr>name = ''p'', partitionKeys = [''a'', ''b'']\<rparr>"
        "\<lparr>name = ''q'', partitionKeys = [''x'', ''y'']\<rparr>" "[[1, 0], [0, 0]]" "''z''" "[]" "''z''" 1]
    by simp
qed

text \<open>
  The claim as stated fails: on the index of keys a, b, c and counts 0, 2, 0 the key
  sequence \<open>["z"]\<close> has the length of the dimensions and \<open>"z"\<close> is not a key of
  dimension 0, and \<open>stateForKey\<close> returns \<open>undefined\<close> instead of failing.
\<close>

theorem stateForKey_absent_key_counterexample:
  "loadPartitionHealthData [''asset'']
     (AssetNode [\<lparr>name = ''default'', partitionKeys = [''a'', ''b'', ''c'']\<rparr>]
        (Some (MaterializationCountSingleDimension [0, 2, 0]))) = Inr abcHealth \<and>
   length [''z''] = length (dimensions abcHealth) \<and>
   ''z'' \<notin> set (partitionKeys (dimensions abcHealth ! 0)) \<and>
   stateForKey abcHealth [''z''] = Inr JSUndefined"
  using load_abc
  by (simp add: abcDimension_def) (simp add: abcHealth_def abcDimension_def stateForKey_def objectPrototypeKeys_def)

subsection \<open>What construction checks\<close>

lemma mapE_TypeError:
  "\<forall>x \<in> set xs. f x = Inl TypeError \<or> (\<exists>y. f x = Inr y) \<Longrightarrow>
   \<exists>x \<in> set xs. f x = Inl TypeError \<Longrightarrow> mapE f xs = Inl TypeError"
proof (induction xs)
  case Nil
  then show ?case by simp
next
  case (Cons a xs)
  show ?case
  proof (cases "f a")
    case (Inl e)
    with Cons.prems(1) have "e = TypeError" by auto
    with Inl show ?thesis by simp
  next
    case (Inr y)
    with Cons.prems(2) have "\<exists>x \<in> set xs. f x = Inl TypeError" by auto
    moreover from Cons.prems(1) have "\<forall>x \<in> set xs. f x = Inl TypeError \<or> (\<exists>y. f x = Inr y)"
      by simp
    ultimately have "mapE f xs = Inl TypeError" by (rule Cons.IH [rotated])
    with Inr show ?thesis by simp
  qed
qed

lemma singleEntries_Nil: "singleEntries [] cs = (if cs = [] then Inr [] else Inl TypeError)"
  by (cases cs) (simp_all add: singleEntries_def enumerate_simps)

lemma innerEntries_short:
  "length dims < 2 \<Longrightarrow> innerEntries dims row = (if row = [] then Inr [] else Inl TypeError)"
  by (cases row; cases dims; cases "tl dims")
     (simp_all add: innerEntries_def enumerate_simps)

lemma groupedEntries_Nil: "groupedEntries [] g = (if g = [] then Inr [] else Inl TypeError)"
  by (cases g) (simp_all add: groupedEntries_def enumerate_simps)

lemma groupedEntries_one_fail:
  assumes "list_ex (\<lambda>row. row \<noteq> []) g"
  shows "groupedEntries [d0] g = Inl TypeError"
proof -
  let ?f = "\<lambda>(idx0, dim0).
      case [d0] of
        [] \<Rightarrow> Inl TypeError
      | d0 # _ \<Rightarrow>
          (case innerEntries [d0] dim0 of
             Inl e \<Rightarrow> Inl e
           | Inr es \<Rightarrow> Inr (keyAt (partitionKeys d0) idx0, JSObject (fromEntries es)))"
  have all: "\<forall>x \<in> set (enumerate 0 g). ?f x = Inl TypeError \<or> (\<exists>y. ?f x = Inr y)"
    by (auto simp: innerEntries_short)
  from assms obtain i where i: "i < length g" "g ! i \<noteq> []"
    by (auto simp: list_ex_iff in_set_conv_nth)
  then have "(i, g ! i) \<in> set (enumerate 0 g)"
    by (simp add: in_set_enumerate_eq)
  moreover have "?f (i, g ! i) = Inl TypeError"
    using i by (simp add: innerEntries_short)
  ultimately have some: "\<exists>x \<in> set (enumerate 0 g). ?f x = Inl TypeError"
    by blast
  from all some have "mapE ?f (enumerate 0 g) = Inl TypeError"
    by (rule mapE_TypeError)
  then show ?thesis
    by (simp add: groupedEntries_def)
qed

lemma groupedEntries_one_ok:
  assumes "\<not> list_ex (\<lambda>row. row \<noteq> []) g"
  shows "\<exists>es. groupedEntries [d0] g = Inr es"
proof -
  have "groupedEntries [d0] g =
      Inr (map (\<lambda>(idx0, dim0). (keyAt (partitionKeys d0) idx0, JSObject (fromEntries []))) (enumerate 0 g))"
    unfolding groupedEntries_def
    using assms by (intro mapE_total) (auto simp: innerEntries_short list_ex_iff in_set_enumerate_eq)
  then show ?thesis by blast
qed

lemma load_ok:
  "entries = Inr es \<Longrightarrow>
     (case entries of
        Inl e \<Rightarrow> Inl e
      | Inr es \<Rightarrow> Inr \<lparr>assetKey = loadKey, dimensions = dims, stateByKey = JSObject (fromEntries es)\<rparr>) =
     Inr \<lparr>assetKey = loadKey, dimensions = dims, stateByKey = JSObject (fromEntries es)\<rparr>"
  by simp

text \<open>
  C2, as amended. \<open>loadPartitionHealthData\<close> validates nothing and never raises
  \<open>InvalidArgument\<close>. Whatever the length of the counts and however many dimensions there
  are, it builds an index that carries every dimension it was given, except that it throws
  a \<open>TypeError\<close> in exactly these cases: single counts that are not empty and no
  dimension; grouped counts that are not empty and no dimension; grouped counts with a
  row that is not empty and fewer than two dimensions. Without a counts payload, and for
  an answer that is not an asset node, it builds an index.
\<close>

theorem index_construction_unchecked:
  "(if dims = [] \<and> cs \<noteq> []
    then loadPartitionHealthData loadKey
           (AssetNode dims (Some (MaterializationCountSingleDimension cs))) = Inl TypeError
    else (\<exists>h. loadPartitionHealthData loadKey
                 (AssetNode dims (Some (MaterializationCountSingleDimension cs))) = Inr h \<and>
               dimensions h = dims)) \<and>
   (if g \<noteq> [] \<and> (dims = [] \<or> length dims < 2 \<and> list_ex (\<lambda>row. row \<noteq> []) g)
    then loadPartitionHealthData loadKey
           (AssetNode dims (Some (MaterializationCountGroupedByDimension g))) = Inl TypeError
    else (\<exists>h. loadPartitionHealthData loadKey
                 (AssetNode dims (Some (MaterializationCountGroupedByDimension g))) = Inr h \<and>
               dimensions h = dims)) \<and>
   (\<exists>h. loadPartitionHealthData loadKey (AssetNode dims None) = Inr h \<and> dimensions h = dims) \<and>
   (\<exists>h. loadPartitionHealthData loadKey AssetNotFoundError = Inr h \<and> dimensions h = []) \<and>
   loadPartitionHealthData loadKey data \<noteq> Inl InvalidArgument"
proof (intro conjI)
  show single: "if dims = [] \<and> cs \<noteq> []
    then loadPartitionHealthData loadKey
           (AssetNode dims (Some (MaterializationCountSingleDimension cs))) = Inl TypeError
    else (\<exists>h. loadPartitionHealthData loadKey
                 (AssetNode dims (Some (MaterializationCountSingleDimension cs))) = Inr h \<and>
               dimensions h = dims)" for dims cs
    by (cases dims)
       (simp_all add: loadPartitionHealthData_def singleEntries_Nil singleEntries_Cons dimension_copy)
  show grouped: "if g \<noteq> [] \<and> (dims = [] \<or> length dims < 2 \<and> list_ex (\<lambda>row. row \<noteq> []) g)
    then loadPartitionHealthData loadKey
           (AssetNode dims (Some (MaterializationCountGroupedByDimension g))) = Inl TypeError
    else (\<exists>h. loadPartitionHealthData loadKey
                 (AssetNode dims (Some (MaterializationCountGroupedByDimension g))) = Inr h \<and>
               dimensions h = dims)" for dims g
  proof (cases dims)
    case Nil
    then show ?thesis
      by (simp add: loadPartitionHealthData_def groupedEntries_Nil)
  next
    case (Cons d0 ds)
    show ?thesis
    proof (cases ds)
      case Nil
      show ?thesis
      proof (cases "list_ex (\<lambda>row. row \<noteq> []) g")
        case True
        then have "g \<noteq> []" by auto
        with True Cons Nil show ?thesis
          by (simp add: loadPartitionHealthData_def groupedEntries_one_fail)
      next
        case False
        then obtain es where "groupedEntries [d0] g = Inr es"
          using groupedEntries_one_ok by blast
        with False Cons Nil show ?thesis
          by (simp add: loadPartitionHealthData_def dimension_copy)
      qed
    next
      case (Cons d1 ds')
      with \<open>dims = d0 # ds\<close> show ?thesis
        by (simp add: loadPartitionHealthData_def groupedEntries_Cons dimension_copy)
    qed
  qed
  show none: "\<exists>h. loadPartitionHealthData loadKey (AssetNode dims None) = Inr h \<and> dimensions h = dims"
    for dims
    by (simp add: loadPartitionHealthData_def singleEntries_def dimension_copy)
  show notfound: "\<exists>h. loadPartitionHealthData loadKey AssetNotFoundError = Inr h \<and> dimensions h = []"
    by (simp add: loadPartitionHealthData_def singleEntries_def)
  show "loadPartitionHealthData loadKey data \<noteq> Inl InvalidArgument"
  proof (cases data)
    case AssetNotFoundError
    with notfound show ?thesis by auto
  next
    case (AssetNode dims counts)
    show ?thesis
    proof (cases counts)
      case None
      with AssetNode none [of dims] show ?thesis by auto
    next
      case (Some c)
      show ?thesis
      proof (cases c)
        case (MaterializationCountSingleDimension cs)
        with AssetNode Some single [of dims cs] show ?thesis
          by (auto split: if_splits)
      next
        case (MaterializationCountGroupedByDimension g)
        with AssetNode Some grouped [of g dims] show ?thesis
          by (auto split: if_splits)
      qed
    qed
  qed
qed

theorem index_construction_unchecked_witness:
  "loadPartitionHealthData [''asset'']
     (AssetNode [] (Some (MaterializationCountGroupedByDimension [[]]))) = Inl TypeError \<and>
   loadPartitionHealthData [''asset'']
     (AssetNode [abcDimension] (Some (MaterializationCountGroupedByDimension [[], [1]]))) = Inl TypeError \<and>
   (\<exists>h. loadPartitionHealthData [''asset'']
           (AssetNode [abcDimension] (Some (MaterializationCountGroupedByDimension [[], []]))) = Inr h \<and>
         dimensions h = [abcDimension]) \<and>
   loadPartitionHealthData [''asset'']
     (AssetNode [] (Some (MaterializationCountSingleDimension [1]))) = Inl TypeError \<and>
   (\<exists>h. loadPartitionHealthData [''asset'']
           (AssetNode [abcDimension] (Some (MaterializationCountSingleDimension [1, 2, 3, 4]))) = Inr h \<and>
         dimensions h = [abcDimension])"
  using index_construction_unchecked [of "[]" "[1]" "[''asset'']" "[[]]"]
    index_construction_unchecked [of "[abcDimension]" "[1, 2, 3, 4]" "[''asset'']" "[[], [1]]"]
    index_construction_unchecked [of "[abcDimension]" "[1, 2, 3, 4]" "[''asset'']" "[[], []]"]
  by simp

text \<open>
  The claim as stated fails twice: two counts for the three keys a, b, c give an index
  (of the first two keys), and three dimensions give an index as well.
\<close>

theorem index_construction_counterexample:
  "length [0, 2 :: int] \<noteq> length (partitionKeys abcDimension) \<and>
   loadPartitionHealthData [''asset'']
     (AssetNode [abcDimension] (Some (MaterializationCountSingleDimension [0, 2]))) =
     Inr \<lparr>assetKey = [''asset''], dimensions = [abcDimension],
          stateByKey = JSObject [(''a'', JSState MISSING), (''b'', JSState SUCCESS)]\<rparr> \<and>
   length [\<lparr>name = ''p'', partitionKeys = [''a'']\<rparr>, \<lparr>name = ''q'', partitionKeys = [''x'']\<rparr>,
           \<lparr>name = ''r'', partitionKeys = [''u'']\<rparr>] > 2 \<and>
   loadPartitionHealthData [''asset'']
     (AssetNode [\<lparr>name = ''p'', partitionKeys = [''a'']\<rparr>, \<lparr>name = ''q'', partitionKeys = [''x'']\<rparr>,
                 \<lparr>name = ''r'', partitionKeys = [''u'']\<rparr>]
        (Some (MaterializationCountGroupedByDimension [[1]]))) =
     Inr \<lparr>assetKey = [''asset''],
          dimensions = [\<lparr>name = ''p'', partitionKeys = [''a'']\<rparr>, \<lparr>name = ''q'', partitionKeys = [''x'']\<rparr>,
                        \<lparr>name = ''r'', partitionKeys = [''u'']\<rparr>],
          stateByKey = JSObject [(''a'', JSObject [(''x'', JSState SUCCESS)])]\<rparr>"
  by (simp add: loadPartitionHealthData_def singleEntries_Cons groupedEntries_Cons dimension_copy
        abcDimension_def fromEntries_def keyAt_def stateOfCount_def enumerate_simps)

subsection \<open>The state of a key of dimension 1\<close>

lemma mergedStatesOf_states:
  "mergedStatesOf (map JSState xs) = map_sum id JSState (mergedStates xs)"
proof -
  have "list_all (\<lambda>v. asState v \<noteq> None) (map JSState xs)"
    by (simp add: list_all_iff)
  moreover have "List.map_filter asState (map JSState xs) = xs"
    by (induction xs) simp_all
  ultimately show ?thesis
    by (simp add: mergedStatesOf_def split: sum.splits)
qed

lemma mapE_entries:
  "\<forall>z \<in> set zs. getProp (f (snd z)) k = Inr (JSState (st (snd z))) \<Longrightarrow>
     mapE (\<lambda>(_, val). getProp val k)
       (filter (\<lambda>(key, _). Q key) (map (\<lambda>(k0, row). (k0, f row)) zs)) =
     Inr (map JSState (map (\<lambda>(k0, row). st row) (filter (\<lambda>(k0, row). Q k0) zs)))"
  by (induction zs) auto

lemma stateForSingleDimension_grouped:
  assumes wf: "wellFormedGrouped e0 e1 g" and j: "j < length (partitionKeys e1)"
    and h: "loadPartitionHealthData loadKey
              (AssetNode (e0 # e1 # es) (Some (MaterializationCountGroupedByDimension g))) = Inr h"
  shows "stateForSingleDimension h 1 (partitionKeys e1 ! j) P =
     map_sum id JSState
       (mergedStates
          (map (\<lambda>(k0, row). stateOfCount (row ! j))
               (filter (\<lambda>(k0, row). withinParent P k0) (zip (partitionKeys e0) g))))"
proof -
  from wf h have sbk: "stateByKey h =
      JSObject (map (\<lambda>(k0, row). (k0, innerObject (partitionKeys e1) row)) (zip (partitionKeys e0) g))"
    by (auto simp: load_wellFormedGrouped zip_map2)
  have "getProp (innerObject (partitionKeys e1) row) (partitionKeys e1 ! j) =
          Inr (JSState (stateOfCount (row ! j)))"
    if "(k0, row) \<in> set (zip (partitionKeys e0) g)" for k0 row
  proof -
    from that have "row \<in> set g" by (rule set_zip_rightD)
    with wf have "length row = length (partitionKeys e1)"
      by (simp add: wellFormedGrouped_def list_all_iff)
    with wf j show ?thesis
      by (intro getProp_inner_nth) (simp_all add: wellFormedGrouped_def)
  qed
  then have "\<forall>z \<in> set (zip (partitionKeys e0) g).
      getProp (innerObject (partitionKeys e1) (snd z)) (partitionKeys e1 ! j) =
        Inr (JSState (stateOfCount (snd z ! j)))"
    by auto
  then have "mapE (\<lambda>(_, val). getProp val (partitionKeys e1 ! j))
           (filter (\<lambda>(key, _). withinParent P key)
              (map (\<lambda>(k0, row). (k0, innerObject (partitionKeys e1) row)) (zip (partitionKeys e0) g))) =
         Inr (map JSState (map (\<lambda>(k0, row). stateOfCount (row ! j))
                (filter (\<lambda>(k0, row). withinParent P k0) (zip (partitionKeys e0) g))))"
    by (rule mapE_entries)
  with sbk have "stateForSingleDimension h 1 (partitionKeys e1 ! j) P =
      mergedStatesOf (map JSState (map (\<lambda>(k0, row). stateOfCount (row ! j))
                (filter (\<lambda>(k0, row). withinParent P k0) (zip (partitionKeys e0) g))))"
    by (simp add: stateForSingleDimension_def del: map_map)
  then show ?thesis
    by (simp only: mergedStatesOf_states)
qed

text \<open>
  C4. On the index of every well-formed two-dimension payload, for every key \<open>k\<close> of
  dimension 1 and every \<open>withinParentDimensions\<close> \<open>P\<close>, given or omitted,
  \<open>stateForSingleDimension(1, k, P)\<close> is \<open>mergedStates\<close> of exactly the states at \<open>k\<close> of
  the dimension-0 entries whose key is in \<open>P\<close> (of all of them when \<open>P\<close> is omitted); an
  error of \<open>mergedStates\<close> is passed on. With dimensions a, b and x, y and grouped counts
  [[1,0],[0,0]], \<open>stateForSingleDimension(1, "x")\<close> is \<open>SUCCESS_MISSING\<close> and
  \<open>stateForSingleDimension(1, "x", ["b"])\<close> is \<open>MISSING\<close>.
\<close>

theorem stateForSingleDimension_aggregate:
  "(wellFormedGrouped e0 e1 g \<and> j < length (partitionKeys e1) \<longrightarrow>
      (\<exists>h. loadPartitionHealthData loadKey
              (AssetNode (e0 # e1 # es) (Some (MaterializationCountGroupedByDimension g))) = Inr h \<and>
            stateForSingleDimension h 1 (partitionKeys e1 ! j) P =
              map_sum id JSState
                (mergedStates
                   (map (\<lambda>(k0, row). stateOfCount (row ! j))
                        (filter (\<lambda>(k0, row). case P of None \<Rightarrow> True | Some ps \<Rightarrow> k0 \<in> set ps)
                                (zip (partitionKeys e0) g)))))) \<and>
   (\<exists>h. loadPartitionHealthData [''asset'']
           (AssetNode [\<lparr>name = ''p'', partitionKeys = [''a'', ''b'']\<rparr>,
                       \<lparr>name = ''q'', partitionKeys = [''x'', ''y'']\<rparr>]
              (Some (MaterializationCountGroupedByDimension [[1, 0], [0, 0]]))) = Inr h \<and>
         stateForSingleDimension h 1 ''x'' None = Inr (JSState SUCCESS_MISSING) \<and>
         stateForSingleDimension h 1 ''x'' (Some [''b'']) = Inr (JSState MISSING))"
proof (intro conjI impI)
  assume a: "wellFormedGrouped e0 e1 g \<and> j < length (partitionKeys e1)"
  then obtain h where h: "loadPartitionHealthData loadKey
      (AssetNode (e0 # e1 # es) (Some (MaterializationCountGroupedByDimension g))) = Inr h"
    by (auto simp: load_wellFormedGrouped)
  with a have "stateForSingleDimension h 1 (partitionKeys e1 ! j) P =
     map_sum id JSState
       (mergedStates
          (map (\<lambda>(k0, row). stateOfCount (row ! j))
               (filter (\<lambda>(k0, row). withinParent P k0) (zip (partitionKeys e0) g))))"
    by (intro stateForSingleDimension_grouped) simp_all
  with h show "\<exists>h. loadPartitionHealthData loadKey
              (AssetNode (e0 # e1 # es) (Some (MaterializationCountGroupedByDimension g))) = Inr h \<and>
            stateForSingleDimension h 1 (partitionKeys e1 ! j) P =
              map_sum id JSState
                (mergedStates
                   (map (\<lambda>(k0, row). stateOfCount (row ! j))
                        (filter (\<lambda>(k0, row). case P of None \<Rightarrow> True | Some ps \<Rightarrow> k0 \<in> set ps)
                                (zip (partitionKeys e0) g))))"
    by (simp add: withinParent_def)
next
  have wf: "wellFormedGrouped \<lparr>name = ''p'', partitionKeys = [''a'', ''b'']\<rparr>
     \<lparr>name = ''q'', partitionKeys = [''x'', ''y'']\<rparr> [[1, 0], [0, 0]]"
    by (simp add: wellFormedGrouped_def)
  show "\<exists>h. loadPartitionHealthData [''asset'']
           (AssetNode [\<lparr>name = ''p'', partitionKeys = [''a'', ''b'']\<rparr>,
                       \<lparr>name = ''q'', partitionKeys = [''x'', ''y'']\<rparr>]
              (Some (MaterializationCountGroupedByDimension [[1, 0], [0, 0]]))) = Inr h \<and>
         stateForSingleDimension h 1 ''x'' None = Inr (JSState SUCCESS_MISSING) \<and>
         stateForSingleDimension h 1 ''x'' (Some [''b'']) = Inr (JSState MISSING)"
    by (simp add: load_wellFormedGrouped [OF wf])
       (simp add: stateForSingleDimension_def innerObject_def withinParent_def
          mergedStatesOf_def mergedStates_def stateOfCount_def)
qed

theorem stateForSingleDimension_aggregate_witness:
  "wellFormedGrouped \<lparr>name = ''p'', partitionKeys = [''a'', ''b'']\<rparr>
     \<lparr>name = ''q'', partitionKeys = [''x'', ''y'']\<rparr> [[1, 0], [0, 3]] \<and>
   (1::nat) < length [''x'', ''y''] \<and>
   (\<exists>h. loadPartitionHealthData [''asset'']
           (AssetNode [\<lparr>name = ''p'', partitionKeys = [''a'', ''b'']\<rparr>,
                       \<lparr>name = ''q'', partitionKeys = [''x'', ''y'']\<rparr>]
              (Some (MaterializationCountGroupedByDimension [[1, 0], [0, 3]]))) = Inr h \<and>
         stateForSingleDimension h 1 ''y'' (Some [''b'']) = Inr (JSState SUCCESS))"
proof -
  have wf: "wellFormedGrouped \<lparr>name = ''p'', partitionKeys = [''a'', ''b'']\<rparr>
     \<lparr>name = ''q'', partitionKeys = [''x'', ''y'']\<rparr> [[1, 0], [0, 3]]"
    by (simp add: wellFormedGrouped_def)
  show ?thesis
    using wf
      stateForSingleDimension_aggregate [of "\<lparr>name = ''p'', partitionKeys = [''a'', ''b'']\<rparr>"
        "\<lparr>name = ''q'', partitionKeys = [''x'', ''y'']\<rparr>" "[[1, 0], [0, 3]]" 1 "[''asset'']" "[]"
        "Some [''b'']"]
    by (simp add: mergedStates_def stateOfCount_def)
qed

subsection \<open>The third dimension\<close>

text \<open>
  C5. For every \<open>dimensionIdx \<ge> 2\<close>, every dimension key and every
  \<open>withinParentDimensions\<close> (given or omitted), and on every index,
  \<open>stateForSingleDimension\<close> throws the error "asked for third dimension"; it returns no
  state.
\<close>

theorem stateForSingleDimension_third_dimension:
  "2 \<le> dimensionIdx \<Longrightarrow>
     stateForSingleDimension h dimensionIdx k withinParentDimensions = Inl Unsupported"
  by (simp add: stateForSingleDimension_def)

theorem stateForSingleDimension_third_dimension_witness:
  "(2::int) \<le> 2 \<and>
   stateForSingleDimension
     \<lparr>assetKey = [''asset''],
      dimensions = [\<lparr>name = ''date'', partitionKeys = [''a'']\<rparr>],
      stateByKey = JSObject [(''a'', JSState SUCCESS)]\<rparr>
     2 ''a'' (Some [''a'']) = Inl Unsupported"
  using stateForSingleDimension_third_dimension [of 2] by simp

subsection \<open>Rows\<close>

lemma timeRange_first:
  "\<forall>p \<in> set pre. \<not> isTime (headKey (partitionKeys (dimension p))) \<Longrightarrow>
     isTime (headKey (partitionKeys (dimension tr))) \<Longrightarrow>
     timeRange isTime (pre @ tr # post) = Some tr"
  by (induction pre) (simp_all add: timeRange_def)

lemma mapE_member:
  "mapE f xs = Inr ys \<Longrightarrow> y \<in> set ys \<Longrightarrow> \<exists>x \<in> set xs. f x = Inr y"
  by (induction xs arbitrary: ys) (auto split: sum.splits)

lemma rowState_0: "rowState h ranges focused 0 k = stateForPartialKey h [k]"
  by (simp add: rowState_def)

lemma load_dayWeek:
  "loadPartitionHealthData [''asset'']
     (AssetNode [dayDimension, weekDimension] (Some (MaterializationCountGroupedByDimension [[1]]))) =
   Inr dayWeekHealth"
  by (simp add: loadPartitionHealthData_def groupedEntries_Cons dimension_copy dayWeekHealth_def
        dayDimension_def weekDimension_def fromEntries_def keyAt_def stateOfCount_def enumerate_simps)

lemma rows_dayWeek:
  "dimensionRowsForRange isDateKey dayWeekHealth dayWeekRanges [] [MISSING, SUCCESS_MISSING, SUCCESS]
     (dayWeekRanges ! 0) 0 = Inr [\<lparr>dimensionKey = ''2022-01-01'', state = JSState SUCCESS\<rparr>]"
  by (simp add: dimensionRowsForRange_def timeRange_def headKey_def dayWeekRanges_def
        dayDimension_def weekDimension_def isDigit_def dimensionKeysOrdered_def rowState_def
        stateForPartialKey_def dayWeekHealth_def objectValues_def mergedStatesOf_def
        mergedStates_def includesState_def)

text \<open>
  C6, as amended. \<open>timeRange\<close> is the first range whose dimension is time-ordered. If
  that first time-ordered range has an empty \<open>selected\<close> list, then the row list of every
  dimension is empty, whatever the other ranges select and whatever the index, the focus
  vector and the state filters are.
\<close>

theorem rows_empty_when_first_time_range_empty:
  "\<forall>p \<in> set pre. \<not> isTime (headKey (partitionKeys (dimension p))) \<Longrightarrow>
     isTime (headKey (partitionKeys (dimension tr))) \<Longrightarrow>
     selected tr = [] \<Longrightarrow>
     dimensionRowsForRange isTime h (pre @ tr # post) focused stateFilters r idx = Inr []"
  by (simp add: dimensionRowsForRange_def timeRange_first)

theorem rows_empty_when_first_time_range_empty_witness:
  "\<not> isDateKey (headKey [''eu'']) \<and> isDateKey (headKey [''2022-01-01'']) \<and>
   dimensionRowsForRange isDateKey dayWeekHealth
     [\<lparr>dimension = \<lparr>name = ''region'', partitionKeys = [''eu'']\<rparr>, selected = [''eu'']\<rparr>,
      \<lparr>dimension = dayDimension, selected = []\<rparr>]
     [] [MISSING, SUCCESS_MISSING, SUCCESS]
     \<lparr>dimension = \<lparr>name = ''region'', partitionKeys = [''eu'']\<rparr>, selected = [''eu'']\<rparr> 0 = Inr []"
  using rows_empty_when_first_time_range_empty
    [of "[\<lparr>dimension = \<lparr>name = ''region'', partitionKeys = [''eu'']\<rparr>, selected = [''eu'']\<rparr>]"
        isDateKey "\<lparr>dimension = dayDimension, selected = []\<rparr>" dayWeekHealth "[]" "[]"
        "[MISSING, SUCCESS_MISSING, SUCCESS]"
        "\<lparr>dimension = \<lparr>name = ''region'', partitionKeys = [''eu'']\<rparr>, selected = [''eu'']\<rparr>" 0]
  by (simp add: headKey_def dayDimension_def isDigit_def)

text \<open>
  The claim as stated fails when a later time-ordered range is the one with the empty
  selection: with a day and a week dimension, the day selected and nothing of the week,
  the week range is time-ordered and empty and the day dimension still has a row.
\<close>

theorem rows_not_empty_counterexample:
  "loadPartitionHealthData [''asset'']
     (AssetNode [dayDimension, weekDimension] (Some (MaterializationCountGroupedByDimension [[1]]))) =
     Inr dayWeekHealth \<and>
   isDateKey (headKey (partitionKeys (dimension (dayWeekRanges ! 1)))) \<and>
   selected (dayWeekRanges ! 1) = [] \<and>
   dimensionRowsForRange isDateKey dayWeekHealth dayWeekRanges [] [MISSING, SUCCESS_MISSING, SUCCESS]
     (dayWeekRanges ! 0) 0 = Inr [\<lparr>dimensionKey = ''2022-01-01'', state = JSState SUCCESS\<rparr>]"
  using load_dayWeek rows_dayWeek
  by (simp add: dayWeekRanges_def weekDimension_def headKey_def isDigit_def)

text \<open>
  C10. At index 0 the test \<open>focusedDimensionKeys.length >= idx\<close> holds for every focus
  vector, so the state of a row of dimension 0 is \<open>stateForPartialKey([key])\<close>: it is the
  same for every focus vector and every sequence of ranges, the branch of
  \<open>stateForSingleDimension\<close> is never taken, and every row that
  \<open>dimensionRowsForRange\<close> returns for dimension 0 carries the state
  \<open>stateForPartialKey\<close> gives for its key.
\<close>

theorem dimension0_row_state:
  "rowState h ranges focused 0 k = stateForPartialKey h [k] \<and>
   rowState h ranges focused 0 k = rowState h ranges' focused' 0 k \<and>
   (dimensionRowsForRange isTime h ranges focused stateFilters r 0 = Inr rows \<longrightarrow>
      (\<forall>row \<in> set rows. stateForPartialKey h [dimensionKey row] = Inr (state row)))"
proof (intro conjI impI ballI)
  show "rowState h ranges focused 0 k = stateForPartialKey h [k]"
    by (rule rowState_0)
  show "rowState h ranges focused 0 k = rowState h ranges' focused' 0 k"
    by (simp add: rowState_0)
next
  fix row
  assume rows: "dimensionRowsForRange isTime h ranges focused stateFilters r 0 = Inr rows"
    and row: "row \<in> set rows"
  show "stateForPartialKey h [dimensionKey row] = Inr (state row)"
  proof (cases "case timeRange isTime ranges of None \<Rightarrow> False | Some tr \<Rightarrow> selected tr = []")
    case True
    with rows row show ?thesis by (simp add: dimensionRowsForRange_def)
  next
    case False
    with rows obtain all where
      m: "mapE (\<lambda>k. case stateForPartialKey h [k] of
                      Inl e \<Rightarrow> Inl e
                    | Inr st \<Rightarrow> Inr \<lparr>dimensionKey = k, state = st\<rparr>)
               (dimensionKeysOrdered isTime r) = Inr all"
      and f: "rows = filter (\<lambda>row. includesState stateFilters (state row)) all"
      by (auto simp: dimensionRowsForRange_def rowState_0 split: sum.splits)
    from f row have "row \<in> set all" by simp
    with m obtain k where
      "(case stateForPartialKey h [k] of
          Inl e \<Rightarrow> Inl e
        | Inr st \<Rightarrow> Inr \<lparr>dimensionKey = k, state = st\<rparr>) = Inr row"
      by (blast dest: mapE_member)
    then show ?thesis by (auto split: sum.splits)
  qed
qed

theorem dimension0_row_state_witness:
  "dimensionRowsForRange isDateKey dayWeekHealth dayWeekRanges [''2022-01-01''] [MISSING, SUCCESS_MISSING, SUCCESS]
     (dayWeekRanges ! 0) 0 = Inr [\<lparr>dimensionKey = ''2022-01-01'', state = JSState SUCCESS\<rparr>] \<and>
   stateForPartialKey dayWeekHealth [''2022-01-01''] = Inr (JSState SUCCESS)"
proof -
  have rows: "dimensionRowsForRange isDateKey dayWeekHealth dayWeekRanges [''2022-01-01'']
      [MISSING, SUCCESS_MISSING, SUCCESS] (dayWeekRanges ! 0) 0 =
      Inr [\<lparr>dimensionKey = ''2022-01-01'', state = JSState SUCCESS\<rparr>]"
    by (simp add: dimensionRowsForRange_def timeRange_def headKey_def dayWeekRanges_def
        dayDimension_def weekDimension_def isDigit_def dimensionKeysOrdered_def rowState_def
        stateForPartialKey_def dayWeekHealth_def objectValues_def mergedStatesOf_def
        mergedStates_def includesState_def)
  with dimension0_row_state [of dayWeekHealth dayWeekRanges "[''2022-01-01'']" "''2022-01-01''"
      dayWeekRanges "[''2022-01-01'']" isDateKey "[MISSING, SUCCESS_MISSING, SUCCESS]" "dayWeekRanges ! 0"
      "[\<lparr>dimensionKey = ''2022-01-01'', state = JSState SUCCESS\<rparr>]"]
  show ?thesis by simp
qed

subsection \<open>The focus vector\<close>











text \<open>
  C9. With one range, selecting a non-empty key \<open>k\<close> writes \<open>k\<close> itself to
  \<open>params.partition\<close>, and reading it back gives the single key \<open>k\<close>, whether or not
  \<open>k\<close> contains the separator; a non-empty \<open>params.partition\<close> is split at the
  separator only when there is more than one range.
\<close>

theorem one_dimension_focus_roundtrip:
  "(length ranges = 1 \<and> k \<noteq> [] \<longrightarrow>
      setFocusedDimensionKey isTime ranges focused 0 (Some k) = Inr k \<and>
      focusedDimensionKeys (Some k) ranges = [k]) \<and>
   (length ranges \<le> 1 \<and> p \<noteq> [] \<longrightarrow> focusedDimensionKeys (Some p) ranges = [p]) \<and>
   (1 < length ranges \<and> p \<noteq> [] \<longrightarrow>
      focusedDimensionKeys (Some p) ranges = filter (\<lambda>s. s \<noteq> []) (split (CHR ''|'') p))"
  by (simp add: setFocusedDimensionKey_def nextFocusedDimensionKeys_def join_def
        focusedDimensionKeys_def)

theorem one_dimension_focus_roundtrip_witness:
  "length [hd dayWeekRanges] = 1 \<and> ''a|b'' \<noteq> [] \<and>
   setFocusedDimensionKey isDateKey [hd dayWeekRanges] [] 0 (Some ''a|b'') = Inr ''a|b'' \<and>
   focusedDimensionKeys (Some ''a|b'') [hd dayWeekRanges] = [''a|b''] \<and>
   1 < length dayWeekRanges \<and>
   focusedDimensionKeys (Some ''a|b'') dayWeekRanges = [''a'', ''b'']"
  using one_dimension_focus_roundtrip [of "[hd dayWeekRanges]" "''a|b''" isDateKey "[]" "''a|b''"]
    one_dimension_focus_roundtrip [of dayWeekRanges "''a|b''" isDateKey "[]" "''a|b''"]
  by (simp add: dayWeekRanges_def split_def)

subsection \<open>Fetches of the hook\<close>















end
